theory Spec2Isabelle
  imports Main "HOL-Library.Word" "HOL-Library.AList"
begin

section \<open>XFS project-quota control (package xfs, control.go)\<close>

text \<open>
  The controller of \<^verbatim>\<open>xfs/control.go\<close> keeps a map from directory paths to
  XFS project ids and a counter of the last id handed out. Its methods are
  embedded as functions that take the controller and the state of the filesystem
  and return both, next to the Go return values. Project ids are
  \<^verbatim>\<open>uint32\<close>, hence 32-bit words: \<open>+\<close> wraps and \<open><\<close> compares unsigned,
  as in Go. Calls of \<^verbatim>\<open>log.Printf\<close> have no effect on the controller
  or the filesystem and are left out.
\<close>

type_synonym u32 = "32 word"
type_synonym u64 = "64 word"

subsection \<open>Values of the package\<close>

text \<open>
  Modelled from the spec: the declaration of \<^verbatim>\<open>Quota\<close> is not among
  the sources (control.go reads \<^verbatim>\<open>quota.Size\<close> and
  \<^verbatim>\<open>quota.INode\<close>); the spec makes it the pair (SizeBytes, INodeLimit)
  of unsigned counts.
\<close>

record Quota =
  Size :: u64
  INode :: u64

text \<open>
  Errors are values. \<^verbatim>\<open>errors.Errorf\<close> and \<^verbatim>\<open>errors.Wrapf\<close>
  are kept with their format string and arguments, unrendered; \<open>Errno\<close> is
  the failure a system call reports.
\<close>

datatype errno = EPERM | ENOENT | EIO | ENOTDIR | EINVAL | ENOSPC

datatype arg = ArgStr string | ArgQuota Quota

datatype error =
    Errno errno
  | Errorf string "arg list"
  | Wrapf error string "arg list"

text \<open>
  A method either returns or panics. The one panic of control.go is Go's
  "assignment to entry in nil map".
\<close>

datatype 'a outcome = Return 'a | Panic

text \<open>
  \<^verbatim>\<open>map[string]uint32\<close>: \<open>None\<close> is the nil map (reads find nothing,
  a write panics), \<open>Some al\<close> an allocated map held as an association list with
  one pair per key. Go iterates a map in no fixed order; the list order stands
  for one such order, and the only loop over the map
  (\<open>raise_lastProjectId\<close> below) is shown not to depend on it.
\<close>

type_synonym gomap = "(string \<times> u32) list option"

definition map_get :: "gomap \<Rightarrow> string \<Rightarrow> u32 option" where
  "map_get m k = (case m of None \<Rightarrow> None | Some al \<Rightarrow> map_of al k)"

definition map_values :: "gomap \<Rightarrow> u32 list" where
  "map_values m = (case m of None \<Rightarrow> [] | Some al \<Rightarrow> map snd al)"

record Control =
  backingFsBlockDev :: string
  projectIdCache :: gomap
  lastProjectId :: u32

record ControlConfig =
  StartingProjectId :: "u32 option"
  BasePath :: string

definition blockDeviceName :: string where
  "blockDeviceName = ''__control-device''"

text \<open>The zero value of \<^verbatim>\<open>Control\<close>, which a named result starts from.\<close>

definition zero_Control :: Control where
  "zero_Control = \<lparr>backingFsBlockDev = [], projectIdCache = None, lastProjectId = 0\<rparr>"

subsection \<open>The filesystem and the calls into it\<close>

text \<open>
  Modelled from the spec: the state of the filesystem that the wrappers
  \<^verbatim>\<open>MakeBackingFsDev\<close>, \<^verbatim>\<open>GetProjectId\<close>,
  \<^verbatim>\<open>SetProjectId\<close>, \<^verbatim>\<open>GetProjectQuota\<close> and
  \<^verbatim>\<open>SetProjectQuota\<close> of package xfs act on. The wrappers are not among
  the sources (control.go only calls them). The spec gives their contract: the
  project id is an attribute stored on each directory inode, with 0 for "none";
  binding an id fails when the path is not a directory or the caller lacks the
  privilege; the quota store holds, per backing device and project id, the hard
  limits last set, and a quota-get reports them; each call may fail. The state:
  \<^item> \<open>readdir\<close>: the children (name, is a directory) that
    \<^verbatim>\<open>ioutil.ReadDir\<close> lists for a path, \<open>None\<close> when it cannot be read,
    and then \<open>readdir_errno\<close> is the error it reports for the path;
    the listing is the one the scan of \<^verbatim>\<open>NewControl\<close> sees, the control
    device, a child that is no directory, included;
  \<^item> \<open>dir_projid\<close>: the project id stored on each directory, \<open>None\<close> for a
    path that is no directory of a project-quota filesystem;
  \<^item> \<open>limits\<close>: the quota store;
  \<^item> \<open>mknod_errno\<close>, \<open>setprojid_errno\<close>, \<open>setquota_errno\<close>: the
    kernel's verdict on a device creation, an attribute bind and a quota-set
    (\<open>None\<close>: granted), left arbitrary;
  \<^item> \<open>calls\<close>: the log of the calls issued so far, oldest first.
\<close>

datatype call =
    MakeBackingFsDev_call string string
  | ReadDir_call string
  | GetProjectId_call string
  | SetProjectId_call string u32
  | GetProjectQuota_call string u32
  | SetProjectQuota_call string u32 Quota

record world =
  readdir :: "string \<Rightarrow> (string \<times> bool) list option"
  readdir_errno :: "string \<Rightarrow> errno"
  dir_projid :: "string \<Rightarrow> u32 option"
  limits :: "string \<times> u32 \<Rightarrow> Quota option"
  mknod_errno :: "string \<Rightarrow> string \<Rightarrow> errno option"
  setprojid_errno :: "string \<Rightarrow> u32 \<Rightarrow> errno option"
  setquota_errno :: "string \<Rightarrow> u32 \<Rightarrow> Quota \<Rightarrow> errno option"
  calls :: "call list"

definition issue :: "call \<Rightarrow> world \<Rightarrow> world" where
  "issue cl w = w\<lparr>calls := calls w @ [cl]\<rparr>"

text \<open>
  Modelled from the spec: \<^verbatim>\<open>MakeBackingFsDev\<close> creates the control file
  under the base path, or reuses the one there, unless the kernel refuses.
\<close>

definition MakeBackingFsDev :: "string \<Rightarrow> string \<Rightarrow> world \<Rightarrow> error option \<times> world" where
  "MakeBackingFsDev base name w =
     (case mknod_errno w base name of
        Some e \<Rightarrow> (Some (Errno e), issue (MakeBackingFsDev_call base name) w)
      | None \<Rightarrow> (None, issue (MakeBackingFsDev_call base name) w))"

text \<open>\<^verbatim>\<open>ioutil.ReadDir\<close> of Go's standard library.\<close>

definition ReadDir :: "string \<Rightarrow> world \<Rightarrow> (error + (string \<times> bool) list) \<times> world" where
  "ReadDir root w =
     (case readdir w root of
        None \<Rightarrow> (Inl (Errno (readdir_errno w root)), issue (ReadDir_call root) w)
      | Some files \<Rightarrow> (Inr files, issue (ReadDir_call root) w))"

text \<open>
  Modelled from the spec: \<^verbatim>\<open>GetProjectId\<close> reads the on-disk project id of
  a directory.
\<close>

definition GetProjectId :: "string \<Rightarrow> world \<Rightarrow> (error + u32) \<times> world" where
  "GetProjectId path w =
     (case dir_projid w path of
        None \<Rightarrow> (Inl (Errno ENOTDIR), issue (GetProjectId_call path) w)
      | Some projectId \<Rightarrow> (Inr projectId, issue (GetProjectId_call path) w))"

text \<open>
  Modelled from the spec: \<^verbatim>\<open>SetProjectId\<close> binds an id to a directory; it
  fails when the path is not a directory or the kernel refuses the caller.
\<close>

definition SetProjectId :: "string \<Rightarrow> u32 \<Rightarrow> world \<Rightarrow> error option \<times> world" where
  "SetProjectId path projectId w =
     (case dir_projid w path of
        None \<Rightarrow> (Some (Errno ENOTDIR), issue (SetProjectId_call path projectId) w)
      | Some _ \<Rightarrow>
          (case setprojid_errno w path projectId of
             Some e \<Rightarrow> (Some (Errno e), issue (SetProjectId_call path projectId) w)
           | None \<Rightarrow>
               (None, issue (SetProjectId_call path projectId)
                        (w\<lparr>dir_projid := (dir_projid w)(path \<mapsto> projectId)\<rparr>))))"

text \<open>
  Modelled from the spec: \<^verbatim>\<open>GetProjectQuota\<close> reports the limits that the
  quota store holds for a device and a project id, and fails when it holds none.
\<close>

definition GetProjectQuota :: "string \<Rightarrow> u32 \<Rightarrow> world \<Rightarrow> (error + Quota) \<times> world" where
  "GetProjectQuota dev projectId w =
     (case limits w (dev, projectId) of
        None \<Rightarrow> (Inl (Errno ENOENT), issue (GetProjectQuota_call dev projectId) w)
      | Some q \<Rightarrow> (Inr q, issue (GetProjectQuota_call dev projectId) w))"

text \<open>
  Modelled from the spec: \<^verbatim>\<open>SetProjectQuota\<close> stores the requested limits
  for a device and a project id, unless the kernel refuses them.
\<close>

definition SetProjectQuota :: "string \<Rightarrow> u32 \<Rightarrow> Quota \<Rightarrow> world \<Rightarrow> error option \<times> world" where
  "SetProjectQuota dev projectId q w =
     (case setquota_errno w dev projectId q of
        Some e \<Rightarrow> (Some (Errno e), issue (SetProjectQuota_call dev projectId q) w)
      | None \<Rightarrow>
          (None, issue (SetProjectQuota_call dev projectId q)
                   (w\<lparr>limits := (limits w)((dev, projectId) \<mapsto> q)\<rparr>)))"

subsection \<open>\<^verbatim>\<open>filepath.Join\<close>\<close>

text \<open>
  Go's standard library, on Unix: the non-empty elements from the first one on
  are joined with a slash and the result is cleaned lexically (empty and
  \<^verbatim>\<open>.\<close> elements dropped, \<^verbatim>\<open>..\<close> resolved against the element before it).
\<close>

fun split_slash :: "string \<Rightarrow> string list" where
  "split_slash [] = [[]]"
| "split_slash (c # cs) =
     (if c = CHR ''/'' then [] # split_slash cs
      else (case split_slash cs of [] \<Rightarrow> [[c]] | x # xs \<Rightarrow> (c # x) # xs))"

fun join_slash :: "string list \<Rightarrow> string" where
  "join_slash [] = []"
| "join_slash [x] = x"
| "join_slash (x # y # ys) = x @ ''/'' @ join_slash (y # ys)"

definition clean_step :: "bool \<Rightarrow> string list \<Rightarrow> string \<Rightarrow> string list" where
  "clean_step rooted st x =
     (if x = [] \<or> x = ''.'' then st
      else if x = ''..'' then
        (case st of
           [] \<Rightarrow> if rooted then [] else [''..'']
         | s # st' \<Rightarrow> if s = ''..'' then ''..'' # st else st')
      else x # st)"

definition filepath_Clean :: "string \<Rightarrow> string" where
  "filepath_Clean path =
     (if path = [] then ''.''
      else
        let rooted = (hd path = CHR ''/'');
            body = join_slash (rev (foldl (clean_step rooted) [] (split_slash path)))
        in if rooted then ''/'' @ body
           else if body = [] then ''.'' else body)"

definition filepath_Join :: "string \<Rightarrow> string \<Rightarrow> string" where
  "filepath_Join a b =
     (if a \<noteq> [] then filepath_Clean (a @ ''/'' @ b)
      else if b \<noteq> [] then filepath_Clean b
      else [])"

subsection \<open>The controller\<close>

text \<open>\<^verbatim>\<open>GeneratePathToProjectIdMap\<close>: the loop over the listed files.\<close>

fun scan_files ::
  "string \<Rightarrow> (string \<times> bool) list \<Rightarrow> (string \<times> u32) list \<Rightarrow> world
     \<Rightarrow> (gomap \<times> error option) \<times> world" where
  "scan_files root [] mapping w = ((Some mapping, None), w)"
| "scan_files root ((name, isDir) # files) mapping w =
     (if \<not> isDir then scan_files root files mapping w
      else
        let absPath = filepath_Join root name in
        (case GetProjectId absPath w of
           (Inl err, w') \<Rightarrow>
             ((Some mapping,
               Some (Wrapf err ''failed to retrieve projectid for directory %s''
                       [ArgStr absPath])), w')
         | (Inr projectId, w') \<Rightarrow>
             scan_files root files
               (if 0 < projectId then AList.update absPath projectId mapping else mapping) w'))"

definition GeneratePathToProjectIdMap ::
  "string \<Rightarrow> world \<Rightarrow> (gomap \<times> error option) \<times> world" where
  "GeneratePathToProjectIdMap root w =
     (case ReadDir root w of
        (Inl err, w') \<Rightarrow>
          ((None,
            Some (Wrapf err ''failed to list files and directories under path %s''
                    [ArgStr root])), w')
      | (Inr files, w') \<Rightarrow> scan_files root files [] w')"

text \<open>
  The loop of \<^verbatim>\<open>NewControl\<close> over the values of the cache:
  \<^verbatim>\<open>if projectId > c.lastProjectId { c.lastProjectId = projectId }\<close>.
\<close>

fun raise_lastProjectId :: "u32 list \<Rightarrow> u32 \<Rightarrow> u32" where
  "raise_lastProjectId [] lastId = lastId"
| "raise_lastProjectId (projectId # ids) lastId =
     raise_lastProjectId ids (if lastId < projectId then projectId else lastId)"

definition NewControl :: "ControlConfig \<Rightarrow> world \<Rightarrow> (Control \<times> error option) \<times> world" where
  "NewControl cfg w =
     (if BasePath cfg = [] then
        ((zero_Control, Some (Errorf ''BasePath must be provided'' [])), w)
      else
        let c1 = (case StartingProjectId cfg of
                    Some s \<Rightarrow> zero_Control\<lparr>lastProjectId := s\<rparr>
                  | None \<Rightarrow> zero_Control)
        in
        (case MakeBackingFsDev (BasePath cfg) blockDeviceName w of
           (Some err, w1) \<Rightarrow>
             ((c1, Some (Wrapf err ''failed to create backingfs dev for base path %s''
                           [ArgStr (BasePath cfg)])), w1)
         | (None, w1) \<Rightarrow>
             let c2 = c1\<lparr>backingFsBlockDev := filepath_Join (BasePath cfg) blockDeviceName\<rparr> in
             (case GeneratePathToProjectIdMap (BasePath cfg) w1 of
                ((m, Some err), w2) \<Rightarrow>
                  ((c2\<lparr>projectIdCache := m\<rparr>,
                    Some (Wrapf err ''failed to create projectid cache from basepath %s''
                            [ArgStr (BasePath cfg)])), w2)
              | ((m, None), w2) \<Rightarrow>
                  ((c2\<lparr>projectIdCache := m,
                       lastProjectId := raise_lastProjectId (map_values m) (lastProjectId c2)\<rparr>,
                    None), w2))))"

definition GetBackingFsBlockDev :: "Control \<Rightarrow> string \<times> Control" where
  "GetBackingFsBlockDev c = (backingFsBlockDev c, c)"

definition GetQuota :: "string \<Rightarrow> Control \<Rightarrow> world \<Rightarrow> (error + Quota) \<times> Control \<times> world" where
  "GetQuota targetPath c w =
     (case map_get (projectIdCache c) targetPath of
        None \<Rightarrow>
          (Inl (Errorf ''no projectId associated with the path %s'' [ArgStr targetPath]), c, w)
      | Some projectId \<Rightarrow>
          (case GetProjectQuota (backingFsBlockDev c) projectId w of
             (Inl err, w') \<Rightarrow> (Inl (Wrapf err ''failed to retrieve quota'' []), c, w')
           | (Inr q, w') \<Rightarrow> (Inr q, c, w')))"

text \<open>The tail of \<^verbatim>\<open>SetQuota\<close>, common to a cached and a fresh path.\<close>

definition apply_quota ::
  "string \<Rightarrow> Quota \<Rightarrow> u32 \<Rightarrow> Control \<Rightarrow> world \<Rightarrow> error option outcome \<times> Control \<times> world" where
  "apply_quota targetPath quota projectId c w =
     (case SetProjectQuota (backingFsBlockDev c) projectId quota w of
        (Some err, w') \<Rightarrow>
          (Return (Some (Wrapf err ''Couldn't set project quota %+v for target-path %s''
                           [ArgQuota quota, ArgStr targetPath])), c, w')
      | (None, w') \<Rightarrow> (Return None, c, w'))"

definition SetQuota ::
  "string \<Rightarrow> Quota \<Rightarrow> Control \<Rightarrow> world \<Rightarrow> error option outcome \<times> Control \<times> world" where
  "SetQuota targetPath quota c w =
     (case map_get (projectIdCache c) targetPath of
        Some projectId \<Rightarrow> apply_quota targetPath quota projectId c w
      | None \<Rightarrow>
          let projectId = lastProjectId c + 1 in
          (case SetProjectId targetPath projectId w of
             (Some err, w') \<Rightarrow>
               (Return (Some (Wrapf err ''couldn't set project id to path %s''
                                [ArgStr targetPath])), c, w')
           | (None, w') \<Rightarrow>
               (case projectIdCache c of
                  None \<Rightarrow> (Panic, c, w')
                | Some al \<Rightarrow>
                    apply_quota targetPath quota projectId
                      (c\<lparr>projectIdCache := Some (AList.update targetPath projectId al),
                         lastProjectId := projectId\<rparr>) w')))"

subsection \<open>The lifetime of a controller\<close>

text \<open>
  After \<^verbatim>\<open>NewControl\<close> a controller serves a sequence of calls of its three
  methods, each on the state the call before left. A panic ends the lifetime.
\<close>

datatype request =
    SetQuota_req string Quota
  | GetQuota_req string
  | GetBackingFsBlockDev_req

fun lifetime :: "request list \<Rightarrow> Control \<Rightarrow> world \<Rightarrow> (Control \<times> world) option" where
  "lifetime [] c w = Some (c, w)"
| "lifetime (SetQuota_req targetPath quota # rs) c w =
     (case SetQuota targetPath quota c w of
        (Panic, c', w') \<Rightarrow> None
      | (Return err, c', w') \<Rightarrow> lifetime rs c' w')"
| "lifetime (GetQuota_req targetPath # rs) c w =
     (case GetQuota targetPath c w of (res, c', w') \<Rightarrow> lifetime rs c' w')"
| "lifetime (GetBackingFsBlockDev_req # rs) c w =
     (case GetBackingFsBlockDev c of (blockDev, c') \<Rightarrow> lifetime rs c' w)"

text \<open>The number of \<^verbatim>\<open>SetQuota\<close> calls among the requests.\<close>

fun SetQuota_calls :: "request list \<Rightarrow> nat" where
  "SetQuota_calls [] = 0"
| "SetQuota_calls (SetQuota_req targetPath quota # rs) = Suc (SetQuota_calls rs)"
| "SetQuota_calls (GetQuota_req targetPath # rs) = SetQuota_calls rs"
| "SetQuota_calls (GetBackingFsBlockDev_req # rs) = SetQuota_calls rs"

text \<open>
  A run of \<^verbatim>\<open>SetQuota\<close> calls that all return a nil error; \<open>None\<close> as soon
  as one does not.
\<close>

fun SetQuota_all :: "(string \<times> Quota) list \<Rightarrow> Control \<Rightarrow> world \<Rightarrow> (Control \<times> world) option" where
  "SetQuota_all [] c w = Some (c, w)"
| "SetQuota_all ((targetPath, quota) # pqs) c w =
     (case SetQuota targetPath quota c w of
        (Return None, c', w') \<Rightarrow> SetQuota_all pqs c' w'
      | (Return (Some err), c', w') \<Rightarrow> None
      | (Panic, c', w') \<Rightarrow> None)"

section \<open>The volume driver and its lock\<close>

text \<open>
  \<^verbatim>\<open>Driver\<close> embeds a \<^verbatim>\<open>sync.Mutex\<close> by value, next to the default size and
  the pointer to the manager. Its methods \<^verbatim>\<open>Create\<close>, \<^verbatim>\<open>List\<close>,
  \<^verbatim>\<open>Get\<close>, \<^verbatim>\<open>Remove\<close>, \<^verbatim>\<open>Path\<close>, \<^verbatim>\<open>Mount\<close> and
  \<^verbatim>\<open>Unmount\<close> are declared on the value receiver \<^verbatim>\<open>(d Driver)\<close>: a call
  copies the driver that the handler holds into \<open>d\<close>, the mutex with it, and
  \<^verbatim>\<open>d.Lock()\<close> and the deferred \<^verbatim>\<open>d.Unlock()\<close> act on that copy. The
  mutex is its state, locked or not; the manager is the address it is kept at.
  The handler is built from the value \<^verbatim>\<open>NewDriver\<close> returns
  (\<^verbatim>\<open>v.NewHandler(d)\<close> in \<^verbatim>\<open>main\<close>). What a method does besides
  locking is not modelled: \<^verbatim>\<open>Create\<close> converts the size before
  \<^verbatim>\<open>Lock\<close> and returns early on a malformed one, \<^verbatim>\<open>Unmount\<close> only
  logs while it holds the lock, the others call the manager.
\<close>

record Driver =
  defaultSize :: string
  manager :: nat
  Mutex_locked :: bool

datatype driver_op = Create | List | Get | Remove | Path | Mount | Unmount

text \<open>
  A request is served by a goroutine of its own, which goes through these phases:
  not yet called; the method entered on its receiver copy; \<^verbatim>\<open>Lock\<close>
  returned, so that the body up to the return (the manager invocation) runs;
  the method returned, its deferred \<^verbatim>\<open>Unlock\<close> done.
\<close>

datatype phase = Pending | Entered Driver | Holding Driver | Done

record server =
  handler_driver :: Driver
  goroutines :: "(driver_op \<times> phase) list"

text \<open>
  One step of goroutine \<open>i\<close>, \<open>None\<close> when it cannot move (\<^verbatim>\<open>Lock\<close> on a
  locked mutex blocks; a finished goroutine has no step).
\<close>

definition step :: "nat \<Rightarrow> server \<Rightarrow> server option" where
  "step i s =
     (if length (goroutines s) \<le> i then None
      else
        (case goroutines s ! i of
           (op, Pending) \<Rightarrow>
             Some (s\<lparr>goroutines := (goroutines s)[i := (op, Entered (handler_driver s))]\<rparr>)
         | (op, Entered d) \<Rightarrow>
             if Mutex_locked d then None
             else Some (s\<lparr>goroutines := (goroutines s)[i := (op, Holding (d\<lparr>Mutex_locked := True\<rparr>))]\<rparr>)
         | (op, Holding d) \<Rightarrow>
             Some (s\<lparr>goroutines := (goroutines s)[i := (op, Done)]\<rparr>)
         | (op, Done) \<Rightarrow> None))"

text \<open>An interleaving: the goroutines that move, in order.\<close>

fun schedule :: "nat list \<Rightarrow> server \<Rightarrow> server option" where
  "schedule [] s = Some s"
| "schedule (i # is) s = (case step i s of None \<Rightarrow> None | Some s' \<Rightarrow> schedule is s')"

section \<open>Concrete states\<close>

text \<open>
  A base path \<^verbatim>\<open>/mnt/xfs\<close> holding the control device, a text file and three
  directories, of which \<^verbatim>\<open>a\<close> carries project id 1; every call is granted.
\<close>

definition sample_world :: world where
  "sample_world =
     \<lparr>readdir = (\<lambda>p. if p = ''/mnt/xfs''
                      then Some [(''__control-device'', False), (''a'', True), (''b'', True),
                                 (''c'', True), (''notes.txt'', False)]
                      else None),
      readdir_errno = (\<lambda>p. if p = ''/mnt/xfs/notes.txt'' then ENOTDIR else ENOENT),
      dir_projid = (\<lambda>p. if p = ''/mnt/xfs/a'' then Some 1
                         else if p = ''/mnt/xfs/b'' then Some 0
                         else if p = ''/mnt/xfs/c'' then Some 0 else None),
      limits = (\<lambda>_. None),
      mknod_errno = (\<lambda>_ _. None),
      setprojid_errno = (\<lambda>_ _. None),
      setquota_errno = (\<lambda>_ _ _. None),
      calls = []\<rparr>"

definition sample_cfg :: ControlConfig where
  "sample_cfg = \<lparr>StartingProjectId = Some 2, BasePath = ''/mnt/xfs''\<rparr>"

definition sample_Control :: Control where
  "sample_Control =
     \<lparr>backingFsBlockDev = ''/mnt/xfs/__control-device'',
      projectIdCache = Some [(''/mnt/xfs/a'', 1)],
      lastProjectId = 2\<rparr>"

definition sample_Quota :: Quota where
  "sample_Quota = \<lparr>Size = 10485760, INode = 0\<rparr>"

text \<open>The same base path with the largest \<^verbatim>\<open>uint32\<close> as the configured floor.\<close>

definition top_cfg :: ControlConfig where
  "top_cfg = \<lparr>StartingProjectId = Some 4294967295, BasePath = ''/mnt/xfs''\<rparr>"

definition top_Control :: Control where
  "top_Control =
     \<lparr>backingFsBlockDev = ''/mnt/xfs/__control-device'',
      projectIdCache = Some [(''/mnt/xfs/a'', 1)],
      lastProjectId = 4294967295\<rparr>"

definition scanned_world :: world where
  "scanned_world =
     sample_world\<lparr>calls := [MakeBackingFsDev_call ''/mnt/xfs'' ''__control-device'',
                             ReadDir_call ''/mnt/xfs'', GetProjectId_call ''/mnt/xfs/a'',
                             GetProjectId_call ''/mnt/xfs/b'', GetProjectId_call ''/mnt/xfs/c'']\<rparr>"

definition sample_Driver :: Driver where
  "sample_Driver = \<lparr>defaultSize = ''512M'', manager = 1, Mutex_locked = False\<rparr>"

section \<open>Properties\<close>

lemmas wrapper_defs = MakeBackingFsDev_def ReadDir_def GetProjectId_def SetProjectId_def
  GetProjectQuota_def SetProjectQuota_def issue_def

lemmas sample_defs = sample_world_def sample_cfg_def sample_Control_def sample_Quota_def
  scanned_world_def

lemmas path_defs = filepath_Join_def filepath_Clean_def clean_step_def blockDeviceName_def

subsection \<open>What a single call does\<close>

lemma apply_quota_cases:
  "apply_quota targetPath quota projectId c w = (r, c', w') \<Longrightarrow>
     c' = c \<and>
     calls w' = calls w @ [SetProjectQuota_call (backingFsBlockDev c) projectId quota] \<and>
     dir_projid w' = dir_projid w \<and>
     (\<exists>e. r = Return e) \<and>
     (r = Return None \<longrightarrow> limits w' (backingFsBlockDev c, projectId) = Some quota) \<and>
     (r \<noteq> Return None \<longrightarrow> limits w' = limits w)"
  by (auto simp: apply_quota_def SetProjectQuota_def issue_def split: option.splits)

lemma apply_quota_granted:
  "apply_quota targetPath quota projectId c w = (Return e, c', w') \<Longrightarrow>
     (e = None) = (setquota_errno w (backingFsBlockDev c) projectId quota = None) \<and>
     setquota_errno w' = setquota_errno w \<and>
     (e = None \<longrightarrow> limits w' = (limits w)((backingFsBlockDev c, projectId) \<mapsto> quota))"
  by (auto simp: apply_quota_def SetProjectQuota_def issue_def split: option.splits)

lemma SetProjectId_cases:
  "SetProjectId path projectId w = (r, w') \<Longrightarrow>
     calls w' = calls w @ [SetProjectId_call path projectId] \<and>
     limits w' = limits w \<and> setquota_errno w' = setquota_errno w \<and>
     (r = None \<longrightarrow> dir_projid w' = (dir_projid w)(path \<mapsto> projectId)) \<and>
     (r \<noteq> None \<longrightarrow> dir_projid w' = dir_projid w)"
  by (auto simp: SetProjectId_def issue_def split: option.splits)

text \<open>
  On the zero \<^verbatim>\<open>Control\<close>, whose cache is the nil map, a
  \<^verbatim>\<open>SetQuota\<close> whose bind succeeds panics at the cache write, after the
  id was bound on disk.
\<close>

lemma SetQuota_nil_cache:
  assumes "projectIdCache c = None"
    and "SetProjectId targetPath (lastProjectId c + 1) w = (None, w')"
  shows "SetQuota targetPath quota c w = (Panic, c, w')"
  using assms by (simp add: SetQuota_def map_get_def)

subsection \<open>Reading methods\<close>

text \<open>
  C9. \<^verbatim>\<open>GetQuota\<close> and \<^verbatim>\<open>GetBackingFsBlockDev\<close> never modify the
  controller: whatever the controller, the filesystem and the argument, the
  controller after the call is the one before it, so the backing device path,
  the cache and \<open>lastProjectId\<close> are unchanged.
\<close>

theorem reads_leave_Control:
  "fst (snd (GetQuota targetPath c w)) = c \<and> snd (GetBackingFsBlockDev c) = c"
  by (simp add: GetQuota_def GetBackingFsBlockDev_def split: option.split prod.split sum.split)

subsection \<open>Failures inside \<^verbatim>\<open>SetQuota\<close>\<close>

text \<open>
  C8. When \<^verbatim>\<open>SetQuota\<close> is called on a path that is not in the cache and the
  bind of the project id (\<^verbatim>\<open>SetProjectId\<close>) fails, \<^verbatim>\<open>SetQuota\<close> returns
  that error, wrapped, and the controller is the one before the call: the path
  has no cache entry and \<open>lastProjectId\<close> keeps its value. Neither the id on
  disk nor the quota store changed.
\<close>

theorem SetQuota_bind_failure:
  assumes "map_get (projectIdCache c) targetPath = None"
    and "SetProjectId targetPath (lastProjectId c + 1) w = (Some err, w')"
  shows "SetQuota targetPath quota c w =
           (Return (Some (Wrapf err ''couldn't set project id to path %s'' [ArgStr targetPath])),
            c, w') \<and>
         map_get (projectIdCache (fst (snd (SetQuota targetPath quota c w)))) targetPath = None \<and>
         lastProjectId (fst (snd (SetQuota targetPath quota c w))) = lastProjectId c \<and>
         dir_projid w' = dir_projid w \<and> limits w' = limits w"
  using assms SetProjectId_cases [OF assms(2)] by (simp add: SetQuota_def)

theorem SetQuota_bind_failure_witness:
  "map_get (projectIdCache sample_Control) ''/mnt/xfs/c'' = None \<and>
   SetProjectId ''/mnt/xfs/c'' (lastProjectId sample_Control + 1)
       (sample_world\<lparr>setprojid_errno := \<lambda>_ _. Some EPERM\<rparr>) =
     (Some (Errno EPERM),
      sample_world\<lparr>setprojid_errno := \<lambda>_ _. Some EPERM,
                   calls := [SetProjectId_call ''/mnt/xfs/c'' 3]\<rparr>) \<and>
   SetQuota ''/mnt/xfs/c'' sample_Quota sample_Control
       (sample_world\<lparr>setprojid_errno := \<lambda>_ _. Some EPERM\<rparr>) =
     (Return (Some (Wrapf (Errno EPERM) ''couldn't set project id to path %s''
                      [ArgStr ''/mnt/xfs/c''])),
      sample_Control,
      sample_world\<lparr>setprojid_errno := \<lambda>_ _. Some EPERM,
                   calls := [SetProjectId_call ''/mnt/xfs/c'' 3]\<rparr>)"
proof -
  have h1: "map_get (projectIdCache sample_Control) ''/mnt/xfs/c'' = None"
    by (simp add: sample_defs map_get_def)
  have h2: "SetProjectId ''/mnt/xfs/c'' (lastProjectId sample_Control + 1)
       (sample_world\<lparr>setprojid_errno := \<lambda>_ _. Some EPERM\<rparr>) =
     (Some (Errno EPERM),
      sample_world\<lparr>setprojid_errno := \<lambda>_ _. Some EPERM,
                   calls := [SetProjectId_call ''/mnt/xfs/c'' 3]\<rparr>)"
    by (simp add: sample_defs wrapper_defs)
  show ?thesis
    using h1 h2 SetQuota_bind_failure [OF h1 h2, of sample_Quota] by simp
qed

text \<open>
  C7. When \<^verbatim>\<open>SetQuota\<close> is called on a path that is not in the cache, the
  bind of the project id succeeds and the quota-set call that follows
  (\<^verbatim>\<open>SetProjectQuota\<close>) fails, \<^verbatim>\<open>SetQuota\<close> returns that error, wrapped,
  and keeps what it did before: the cache maps the path to the new id,
  \<open>lastProjectId\<close> is the new id, the directory carries the id on disk, and the
  quota store is as it was, so no limits apply. The quota-set call is only
  reached with an allocated cache (the write to a nil map panics first), which
  every controller made by \<^verbatim>\<open>NewControl\<close> has.
\<close>

theorem SetQuota_quota_failure:
  assumes "map_get (projectIdCache c) targetPath = None"
    and "projectIdCache c = Some al"
    and "SetProjectId targetPath (lastProjectId c + 1) w = (None, w1)"
    and "SetProjectQuota (backingFsBlockDev c) (lastProjectId c + 1) quota w1 = (Some err, w2)"
  shows "\<exists>c'. SetQuota targetPath quota c w =
           (Return (Some (Wrapf err ''Couldn't set project quota %+v for target-path %s''
                            [ArgQuota quota, ArgStr targetPath])), c', w2) \<and>
         map_get (projectIdCache c') targetPath = Some (lastProjectId c + 1) \<and>
         lastProjectId c' = lastProjectId c + 1 \<and>
         dir_projid w2 targetPath = Some (lastProjectId c + 1) \<and>
         limits w2 = limits w"
proof -
  have "dir_projid w2 = dir_projid w1 \<and> limits w2 = limits w1"
    using assms(4) by (auto simp: SetProjectQuota_def issue_def split: option.splits)
  moreover have "dir_projid w1 targetPath = Some (lastProjectId c + 1) \<and> limits w1 = limits w"
    using SetProjectId_cases [OF assms(3)] by simp
  ultimately show ?thesis
    using assms by (simp add: SetQuota_def apply_quota_def map_get_def update_conv' Let_def)
qed

theorem SetQuota_quota_failure_witness:
  "map_get (projectIdCache sample_Control) ''/mnt/xfs/c'' = None \<and>
   projectIdCache sample_Control = Some [(''/mnt/xfs/a'', 1)] \<and>
   (\<exists>w1 w2.
      SetProjectId ''/mnt/xfs/c'' (lastProjectId sample_Control + 1)
          (sample_world\<lparr>setquota_errno := \<lambda>_ _ _. Some ENOSPC\<rparr>) = (None, w1) \<and>
      SetProjectQuota (backingFsBlockDev sample_Control) (lastProjectId sample_Control + 1)
          sample_Quota w1 = (Some (Errno ENOSPC), w2) \<and>
      (\<exists>c'. SetQuota ''/mnt/xfs/c'' sample_Quota sample_Control
               (sample_world\<lparr>setquota_errno := \<lambda>_ _ _. Some ENOSPC\<rparr>) =
             (Return (Some (Wrapf (Errno ENOSPC)
                              ''Couldn't set project quota %+v for target-path %s''
                              [ArgQuota sample_Quota, ArgStr ''/mnt/xfs/c''])), c', w2) \<and>
           map_get (projectIdCache c') ''/mnt/xfs/c'' = Some 3 \<and>
           lastProjectId c' = 3))"
proof -
  define w where "w = sample_world\<lparr>setquota_errno := \<lambda>_ _ _. Some ENOSPC\<rparr>"
  define w1 where "w1 = snd (SetProjectId ''/mnt/xfs/c'' (lastProjectId sample_Control + 1) w)"
  define w2 where "w2 = snd (SetProjectQuota (backingFsBlockDev sample_Control)
                               (lastProjectId sample_Control + 1) sample_Quota w1)"
  have h1: "map_get (projectIdCache sample_Control) ''/mnt/xfs/c'' = None"
    by (simp add: sample_defs map_get_def)
  have h2: "projectIdCache sample_Control = Some [(''/mnt/xfs/a'', 1)]"
    by (simp add: sample_defs)
  have h3: "SetProjectId ''/mnt/xfs/c'' (lastProjectId sample_Control + 1) w = (None, w1)"
    by (simp add: w1_def w_def sample_defs wrapper_defs)
  have h4: "SetProjectQuota (backingFsBlockDev sample_Control) (lastProjectId sample_Control + 1)
              sample_Quota w1 = (Some (Errno ENOSPC), w2)"
    by (simp add: w2_def w1_def w_def sample_defs wrapper_defs)
  have l: "lastProjectId sample_Control + 1 = 3"
    by (simp add: sample_defs)
  show ?thesis
    using h1 h2 h3 h4 SetQuota_quota_failure [OF h1 h2 h3 h4] unfolding l w_def by blast
qed

subsection \<open>\<^verbatim>\<open>GetQuota\<close>\<close>

text \<open>
  C4. \<^verbatim>\<open>GetQuota\<close> fails with the error "no projectId associated with the
  path" exactly when the path is absent from the cache, and then issues no
  call. When the path is present it issues one call, a quota-get against the
  backing device for the cached project id, and returns the quota that call
  reports, or its error wrapped as "failed to retrieve quota".
\<close>
theorem GetQuota_cases:
  "(fst (GetQuota targetPath c w) =
      Inl (Errorf ''no projectId associated with the path %s'' [ArgStr targetPath]))
     = (map_get (projectIdCache c) targetPath = None) \<and>
   (map_get (projectIdCache c) targetPath = None \<longrightarrow>
      calls (snd (snd (GetQuota targetPath c w))) = calls w) \<and>
   (\<forall>projectId. map_get (projectIdCache c) targetPath = Some projectId \<longrightarrow>
      calls (snd (snd (GetQuota targetPath c w))) =
        calls w @ [GetProjectQuota_call (backingFsBlockDev c) projectId] \<and>
      fst (GetQuota targetPath c w) =
        (case fst (GetProjectQuota (backingFsBlockDev c) projectId w) of
           Inr q \<Rightarrow> Inr q
         | Inl err \<Rightarrow> Inl (Wrapf err ''failed to retrieve quota'' [])))"
  by (auto simp: GetQuota_def GetProjectQuota_def issue_def split: option.splits sum.splits)

theorem GetQuota_cases_witness:
  "map_get (projectIdCache sample_Control) ''/mnt/xfs/a'' = Some 1 \<and>
   fst (GetQuota ''/mnt/xfs/a'' sample_Control
          (sample_world\<lparr>limits := [(''/mnt/xfs/__control-device'', 1) \<mapsto> sample_Quota]\<rparr>)) =
     Inr sample_Quota \<and>
   calls (snd (snd (GetQuota ''/mnt/xfs/a'' sample_Control
          (sample_world\<lparr>limits := [(''/mnt/xfs/__control-device'', 1) \<mapsto> sample_Quota]\<rparr>)))) =
     [GetProjectQuota_call ''/mnt/xfs/__control-device'' 1] \<and>
   fst (GetQuota ''/mnt/xfs/a'' sample_Control sample_world) =
     Inl (Wrapf (Errno ENOENT) ''failed to retrieve quota'' []) \<and>
   map_get (projectIdCache sample_Control) ''/mnt/xfs/b'' = None \<and>
   fst (GetQuota ''/mnt/xfs/b'' sample_Control sample_world) =
     Inl (Errorf ''no projectId associated with the path %s'' [ArgStr ''/mnt/xfs/b''])"
proof -
  have h1: "map_get (projectIdCache sample_Control) ''/mnt/xfs/a'' = Some 1"
    by (simp add: sample_defs map_get_def)
  have h2: "map_get (projectIdCache sample_Control) ''/mnt/xfs/b'' = None"
    by (simp add: sample_defs map_get_def)
  have d: "backingFsBlockDev sample_Control = ''/mnt/xfs/__control-device''"
    by (simp add: sample_defs)
  have l1: "limits (sample_world\<lparr>limits := [(''/mnt/xfs/__control-device'', 1) \<mapsto> sample_Quota]\<rparr>)
              (''/mnt/xfs/__control-device'', 1) = Some sample_Quota"
    by simp
  have l2: "limits sample_world (''/mnt/xfs/__control-device'', 1) = None"
    by (simp add: sample_defs)
  have c0: "calls (sample_world\<lparr>limits := [(''/mnt/xfs/__control-device'', 1) \<mapsto> sample_Quota]\<rparr>) = []"
    by (simp add: sample_defs)
  show ?thesis
    using h1 h2
      GetQuota_cases [of "''/mnt/xfs/a''" sample_Control
        "sample_world\<lparr>limits := [(''/mnt/xfs/__control-device'', 1) \<mapsto> sample_Quota]\<rparr>"]
      GetQuota_cases [of "''/mnt/xfs/a''" sample_Control sample_world]
      GetQuota_cases [of "''/mnt/xfs/b''" sample_Control sample_world]
    by (simp add: d l1 l2 c0 GetProjectQuota_def)
qed

subsection \<open>\<^verbatim>\<open>SetQuota\<close> on a path that has its id\<close>

text \<open>
  C3. For a path that is in the cache, \<^verbatim>\<open>SetQuota\<close> returns with the
  controller it was given (no id is allocated, no cache entry and not
  \<open>lastProjectId\<close> changes) and issues one call, the quota-set with the cached
  id and the requested limits; no id is bound on disk. It returns no error
  exactly when the quota-set is granted, and then the quota store holds the
  requested limits for that id; otherwise the store is as before. A second call
  on the same path does the same with the same id: when its quota-set is
  granted it returns no error and its limits are the ones the store holds for
  the id, whatever the first call stored.
\<close>

theorem SetQuota_cached_path:
  assumes "map_get (projectIdCache c) targetPath = Some projectId"
  shows "\<exists>e w'. SetQuota targetPath quota c w = (Return e, c, w') \<and>
           calls w' = calls w @ [SetProjectQuota_call (backingFsBlockDev c) projectId quota] \<and>
           dir_projid w' = dir_projid w \<and>
           (e = None) = (setquota_errno w (backingFsBlockDev c) projectId quota = None) \<and>
           (e = None \<longrightarrow> limits w' = (limits w)((backingFsBlockDev c, projectId) \<mapsto> quota)) \<and>
           (e \<noteq> None \<longrightarrow> limits w' = limits w) \<and>
           (\<exists>e2 w2. SetQuota targetPath quota2 c w' = (Return e2, c, w2) \<and>
              calls w2 = calls w @ [SetProjectQuota_call (backingFsBlockDev c) projectId quota,
                                    SetProjectQuota_call (backingFsBlockDev c) projectId quota2] \<and>
              dir_projid w2 = dir_projid w \<and>
              (e2 = None) = (setquota_errno w (backingFsBlockDev c) projectId quota2 = None) \<and>
              (e2 = None \<longrightarrow> limits w2 (backingFsBlockDev c, projectId) = Some quota2) \<and>
              (e2 \<noteq> None \<longrightarrow> limits w2 = limits w'))"
proof -
  obtain r w' where 1: "apply_quota targetPath quota projectId c w = (r, c, w')"
    using apply_quota_cases [of targetPath quota projectId c w]
    by (metis prod_cases3)
  obtain r2 w2 where 2: "apply_quota targetPath quota2 projectId c w' = (r2, c, w2)"
    using apply_quota_cases [of targetPath quota2 projectId c w']
    by (metis prod_cases3)
  from apply_quota_cases [OF 1] obtain e where e: "r = Return e" by blast
  from apply_quota_cases [OF 2] obtain e2 where e2: "r2 = Return e2" by blast
  have s1: "SetQuota targetPath quota c w = (Return e, c, w')"
    using assms 1 e by (simp add: SetQuota_def)
  have s2: "SetQuota targetPath quota2 c w' = (Return e2, c, w2)"
    using assms 2 e2 by (simp add: SetQuota_def)
  note g1 = apply_quota_granted [OF 1 [unfolded e]]
  note g2 = apply_quota_granted [OF 2 [unfolded e2]]
  show ?thesis
    using s1 s2 apply_quota_cases [OF 1] apply_quota_cases [OF 2] e e2 g1 g2 by auto
qed

theorem SetQuota_cached_path_witness:
  "map_get (projectIdCache sample_Control) ''/mnt/xfs/a'' = Some 1 \<and>
   setquota_errno sample_world (backingFsBlockDev sample_Control) 1 sample_Quota = None \<and>
   setquota_errno sample_world (backingFsBlockDev sample_Control) 1
     \<lparr>Size = 4096, INode = 100\<rparr> = None \<and>
   (\<exists>w' w2.
      SetQuota ''/mnt/xfs/a'' sample_Quota sample_Control sample_world =
        (Return None, sample_Control, w') \<and>
      limits w' (backingFsBlockDev sample_Control, 1) = Some sample_Quota \<and>
      SetQuota ''/mnt/xfs/a'' \<lparr>Size = 4096, INode = 100\<rparr> sample_Control w' =
        (Return None, sample_Control, w2) \<and>
      limits w2 (backingFsBlockDev sample_Control, 1) = Some \<lparr>Size = 4096, INode = 100\<rparr> \<and>
      calls w2 = calls sample_world @
                   [SetProjectQuota_call (backingFsBlockDev sample_Control) 1 sample_Quota,
                    SetProjectQuota_call (backingFsBlockDev sample_Control) 1
                      \<lparr>Size = 4096, INode = 100\<rparr>])"
proof -
  let ?q2 = "\<lparr>Size = 4096, INode = 100\<rparr>"
  let ?dev = "backingFsBlockDev sample_Control"
  have h1: "map_get (projectIdCache sample_Control) ''/mnt/xfs/a'' = Some 1"
    by (simp add: sample_defs map_get_def)
  have g1: "setquota_errno sample_world ?dev 1 sample_Quota = None"
    by (simp add: sample_defs)
  have g2: "setquota_errno sample_world ?dev 1 ?q2 = None"
    by (simp add: sample_defs)
  note SetQuota_cached_path [OF h1, of sample_Quota sample_world ?q2]
  then obtain e where "\<exists>w'.
      SetQuota ''/mnt/xfs/a'' sample_Quota sample_Control sample_world =
        (Return e, sample_Control, w') \<and>
      calls w' = calls sample_world @ [SetProjectQuota_call ?dev 1 sample_Quota] \<and>
      dir_projid w' = dir_projid sample_world \<and>
      (e = None) = (setquota_errno sample_world ?dev 1 sample_Quota = None) \<and>
      (e = None \<longrightarrow> limits w' = (limits sample_world)((?dev, 1) \<mapsto> sample_Quota)) \<and>
      (e \<noteq> None \<longrightarrow> limits w' = limits sample_world) \<and>
      (\<exists>e2 w2.
         SetQuota ''/mnt/xfs/a'' ?q2 sample_Control w' = (Return e2, sample_Control, w2) \<and>
         calls w2 = calls sample_world @
                   [SetProjectQuota_call ?dev 1 sample_Quota,
                    SetProjectQuota_call ?dev 1 ?q2] \<and>
         dir_projid w2 = dir_projid sample_world \<and>
         (e2 = None) = (setquota_errno sample_world ?dev 1 ?q2 = None) \<and>
         (e2 = None \<longrightarrow> limits w2 (?dev, 1) = Some ?q2) \<and>
         (e2 \<noteq> None \<longrightarrow> limits w2 = limits w'))" ..
  then obtain w' where first:
     "SetQuota ''/mnt/xfs/a'' sample_Quota sample_Control sample_world =
        (Return e, sample_Control, w') \<and>
      calls w' = calls sample_world @ [SetProjectQuota_call ?dev 1 sample_Quota] \<and>
      dir_projid w' = dir_projid sample_world \<and>
      (e = None) = (setquota_errno sample_world ?dev 1 sample_Quota = None) \<and>
      (e = None \<longrightarrow> limits w' = (limits sample_world)((?dev, 1) \<mapsto> sample_Quota)) \<and>
      (e \<noteq> None \<longrightarrow> limits w' = limits sample_world) \<and>
      (\<exists>e2 w2.
         SetQuota ''/mnt/xfs/a'' ?q2 sample_Control w' = (Return e2, sample_Control, w2) \<and>
         calls w2 = calls sample_world @
                   [SetProjectQuota_call ?dev 1 sample_Quota,
                    SetProjectQuota_call ?dev 1 ?q2] \<and>
         dir_projid w2 = dir_projid sample_world \<and>
         (e2 = None) = (setquota_errno sample_world ?dev 1 ?q2 = None) \<and>
         (e2 = None \<longrightarrow> limits w2 (?dev, 1) = Some ?q2) \<and>
         (e2 \<noteq> None \<longrightarrow> limits w2 = limits w'))" ..
  from first g1 have e: "e = None" by simp
  from first e have a: "SetQuota ''/mnt/xfs/a'' sample_Quota sample_Control sample_world =
        (Return None, sample_Control, w')" by simp
  from first e have l1: "limits w' (?dev, 1) = Some sample_Quota" by simp
  from first have "\<exists>e2 w2.
         SetQuota ''/mnt/xfs/a'' ?q2 sample_Control w' = (Return e2, sample_Control, w2) \<and>
         calls w2 = calls sample_world @
                   [SetProjectQuota_call ?dev 1 sample_Quota,
                    SetProjectQuota_call ?dev 1 ?q2] \<and>
         dir_projid w2 = dir_projid sample_world \<and>
         (e2 = None) = (setquota_errno sample_world ?dev 1 ?q2 = None) \<and>
         (e2 = None \<longrightarrow> limits w2 (?dev, 1) = Some ?q2) \<and>
         (e2 \<noteq> None \<longrightarrow> limits w2 = limits w')" by (elim conjE)
  then obtain e2 where "\<exists>w2.
         SetQuota ''/mnt/xfs/a'' ?q2 sample_Control w' = (Return e2, sample_Control, w2) \<and>
         calls w2 = calls sample_world @
                   [SetProjectQuota_call ?dev 1 sample_Quota,
                    SetProjectQuota_call ?dev 1 ?q2] \<and>
         dir_projid w2 = dir_projid sample_world \<and>
         (e2 = None) = (setquota_errno sample_world ?dev 1 ?q2 = None) \<and>
         (e2 = None \<longrightarrow> limits w2 (?dev, 1) = Some ?q2) \<and>
         (e2 \<noteq> None \<longrightarrow> limits w2 = limits w')" ..
  then obtain w2 where second:
        "SetQuota ''/mnt/xfs/a'' ?q2 sample_Control w' = (Return e2, sample_Control, w2) \<and>
         calls w2 = calls sample_world @
                   [SetProjectQuota_call ?dev 1 sample_Quota,
                    SetProjectQuota_call ?dev 1 ?q2] \<and>
         dir_projid w2 = dir_projid sample_world \<and>
         (e2 = None) = (setquota_errno sample_world ?dev 1 ?q2 = None) \<and>
         (e2 = None \<longrightarrow> limits w2 (?dev, 1) = Some ?q2) \<and>
         (e2 \<noteq> None \<longrightarrow> limits w2 = limits w')" ..
  from second g2 have e2: "e2 = None" by simp
  from second e2 have d: "SetQuota ''/mnt/xfs/a'' ?q2 sample_Control w' =
        (Return None, sample_Control, w2)" by simp
  from second e2 have l2: "limits w2 (?dev, 1) = Some ?q2" by simp
  from second have k: "calls w2 = calls sample_world @
                   [SetProjectQuota_call ?dev 1 sample_Quota,
                    SetProjectQuota_call ?dev 1 ?q2]" by simp
  have "\<exists>w' w2.
      SetQuota ''/mnt/xfs/a'' sample_Quota sample_Control sample_world =
        (Return None, sample_Control, w') \<and>
      limits w' (?dev, 1) = Some sample_Quota \<and>
      SetQuota ''/mnt/xfs/a'' ?q2 sample_Control w' = (Return None, sample_Control, w2) \<and>
      limits w2 (?dev, 1) = Some ?q2 \<and>
      calls w2 = calls sample_world @
                   [SetProjectQuota_call ?dev 1 sample_Quota,
                    SetProjectQuota_call ?dev 1 ?q2]"
    using a d l1 l2 k by (intro exI conjI)
  with h1 g1 g2 show ?thesis by (intro conjI)
qed

subsection \<open>\<^verbatim>\<open>SetQuota\<close> followed by \<^verbatim>\<open>GetQuota\<close>\<close>

text \<open>
  C2. When \<^verbatim>\<open>SetQuota\<close> on a path with quota \<open>q\<close> returns no error, a
  \<^verbatim>\<open>GetQuota\<close> on that path right after it succeeds and returns \<open>q\<close>. The
  quota store is the one of the spec: a quota-get reports the limits that the
  last quota-set stored for the same device and project id.
\<close>
theorem SetQuota_then_GetQuota:
  assumes "SetQuota targetPath quota c w = (Return None, c', w')"
  shows "fst (GetQuota targetPath c' w') = Inr quota"
proof (cases "map_get (projectIdCache c) targetPath")
  case (Some projectId)
  then have "apply_quota targetPath quota projectId c w = (Return None, c', w')"
    using assms by (simp add: SetQuota_def)
  from apply_quota_cases [OF this] Some show ?thesis
    by (simp add: GetQuota_def GetProjectQuota_def)
next
  case None
  obtain r w1 where b: "SetProjectId targetPath (lastProjectId c + 1) w = (r, w1)"
    by (cases "SetProjectId targetPath (lastProjectId c + 1) w")
  from None b assms obtain al where al: "projectIdCache c = Some al" and r: "r = None"
    by (auto simp: SetQuota_def Let_def split: option.splits)
  let ?c1 = "c\<lparr>projectIdCache := Some (AList.update targetPath (lastProjectId c + 1) al),
               lastProjectId := lastProjectId c + 1\<rparr>"
  have "apply_quota targetPath quota (lastProjectId c + 1) ?c1 w1 = (Return None, c', w')"
    using None b r al assms by (simp add: SetQuota_def Let_def)
  from apply_quota_cases [OF this] show ?thesis
    by (auto simp: GetQuota_def GetProjectQuota_def map_get_def update_conv')
qed

theorem SetQuota_then_GetQuota_witness:
  "(\<exists>c' w'. SetQuota ''/mnt/xfs/c'' sample_Quota sample_Control sample_world = (Return None, c', w') \<and>
      fst (GetQuota ''/mnt/xfs/c'' c' w') = Inr sample_Quota)"
proof -
  define c' where "c' = fst (snd (SetQuota ''/mnt/xfs/c'' sample_Quota sample_Control sample_world))"
  define w' where "w' = snd (snd (SetQuota ''/mnt/xfs/c'' sample_Quota sample_Control sample_world))"
  have h: "SetQuota ''/mnt/xfs/c'' sample_Quota sample_Control sample_world = (Return None, c', w')"
    by (simp add: c'_def w'_def SetQuota_def apply_quota_def map_get_def Let_def sample_defs wrapper_defs)
  show ?thesis
    using h SetQuota_then_GetQuota [OF h] by blast
qed

subsection \<open>\<^verbatim>\<open>NewControl\<close>: the initial scan\<close>

lemma GetProjectId_cases:
  "GetProjectId path w = (r, w') \<Longrightarrow>
     dir_projid w' = dir_projid w \<and>
     r = (case dir_projid w path of None \<Rightarrow> Inl (Errno ENOTDIR) | Some v \<Rightarrow> Inr v)"
  by (auto simp: GetProjectId_def issue_def split: option.splits)

lemma scan_files_ok:
  "scan_files root files m w = ((mo, None), w') \<Longrightarrow>
     \<exists>al. mo = Some al \<and>
       (distinct (map fst m) \<longrightarrow> distinct (map fst al)) \<and>
       (\<forall>name. (name, True) \<in> set files \<longrightarrow> dir_projid w (filepath_Join root name) \<noteq> None) \<and>
       (\<forall>p. map_of al p =
          (if \<exists>name v. (name, True) \<in> set files \<and> p = filepath_Join root name \<and>
                        dir_projid w p = Some v \<and> v \<noteq> 0
           then dir_projid w p else map_of m p))"
proof (induction root files m w rule: scan_files.induct)
  case (1 root mapping w)
  then show ?case by auto
next
  case (2 root name isDir files mapping w)
  show ?case
  proof (cases isDir)
    case False
    with 2 show ?thesis by simp
  next
    case True
    let ?abs = "filepath_Join root name"
    obtain r w1 where g: "GetProjectId ?abs w = (r, w1)"
      by (cases "GetProjectId ?abs w")
    from GetProjectId_cases [OF g] have d: "dir_projid w1 = dir_projid w"
      and r: "r = (case dir_projid w ?abs of None \<Rightarrow> Inl (Errno ENOTDIR) | Some v \<Rightarrow> Inr v)"
      by simp_all
    from "2.prems" True g obtain projectId where pid: "r = Inr projectId"
      by (cases r) (simp_all add: Let_def)
    with r have dp: "dir_projid w ?abs = Some projectId"
      by (simp split: option.splits)
    let ?m = "if 0 < projectId then AList.update ?abs projectId mapping else mapping"
    have run: "scan_files root files ?m w1 = ((mo, None), w')"
      using "2.prems" True g pid by (simp add: Let_def)
    from "2.IH"(2) [OF _ refl g [symmetric] _ run] True pid
    obtain al where al: "mo = Some al"
      and dist: "distinct (map fst ?m) \<longrightarrow> distinct (map fst al)"
      and ok: "\<forall>n. (n, True) \<in> set files \<longrightarrow> dir_projid w1 (filepath_Join root n) \<noteq> None"
      and look: "\<forall>p. map_of al p =
          (if \<exists>n v. (n, True) \<in> set files \<and> p = filepath_Join root n \<and>
                        dir_projid w1 p = Some v \<and> v \<noteq> 0
           then dir_projid w1 p else map_of ?m p)"
      by auto
    have "distinct (map fst mapping) \<longrightarrow> distinct (map fst al)"
      using dist by (simp add: distinct_update)
    moreover have "\<forall>n. (n, True) \<in> set ((name, isDir) # files) \<longrightarrow>
                     dir_projid w (filepath_Join root n) \<noteq> None"
      using ok d dp by auto
    moreover have "\<forall>p. map_of al p =
          (if \<exists>n v. (n, True) \<in> set ((name, isDir) # files) \<and> p = filepath_Join root n \<and>
                        dir_projid w p = Some v \<and> v \<noteq> 0
           then dir_projid w p else map_of mapping p)"
    proof
      fix p
      show "map_of al p =
          (if \<exists>n v. (n, True) \<in> set ((name, isDir) # files) \<and> p = filepath_Join root n \<and>
                        dir_projid w p = Some v \<and> v \<noteq> 0
           then dir_projid w p else map_of mapping p)"
        using look [rule_format, of p] d dp True
        by (auto simp: update_conv' word_gt_0)
    qed
    ultimately show ?thesis using al by blast
  qed
qed

lemma raise_lastProjectId_Max:
  "raise_lastProjectId ids lastId = Max (insert lastId (set ids))"
proof (induction ids arbitrary: lastId)
  case Nil
  then show ?case by simp
next
  case (Cons projectId ids)
  have "Max (insert lastId (set (projectId # ids))) =
        Max (insert (max lastId projectId) (set ids))"
    by (cases "set ids = {}") (simp_all add: max.assoc max.commute max.left_commute insert_commute)
  then show ?case
    using Cons.IH [of "if lastId < projectId then projectId else lastId"]
    by (simp add: max_def not_less)
qed

lemma MakeBackingFsDev_cases:
  "MakeBackingFsDev base name w = (r, w') \<Longrightarrow>
     readdir w' = readdir w \<and> dir_projid w' = dir_projid w \<and> limits w' = limits w"
  by (auto simp: MakeBackingFsDev_def issue_def split: option.splits)

lemma ReadDir_cases:
  "ReadDir root w = (r, w') \<Longrightarrow>
     dir_projid w' = dir_projid w \<and>
     r = (case readdir w root of
            None \<Rightarrow> Inl (Errno (readdir_errno w root))
          | Some files \<Rightarrow> Inr files)"
  by (auto simp: ReadDir_def issue_def split: option.splits)

lemma NewControl_success:
  assumes "NewControl cfg w = ((c, None), w')"
  shows "\<exists>files al w1.
           readdir w (BasePath cfg) = Some files \<and> dir_projid w1 = dir_projid w \<and>
           scan_files (BasePath cfg) files [] w1 = ((Some al, None), w') \<and>
           backingFsBlockDev c = filepath_Join (BasePath cfg) blockDeviceName \<and>
           projectIdCache c = Some al \<and>
           lastProjectId c =
             raise_lastProjectId (map snd al)
               (case StartingProjectId cfg of None \<Rightarrow> 0 | Some s \<Rightarrow> s)"
proof -
  from assms have nonempty: "BasePath cfg \<noteq> []"
    by (auto simp: NewControl_def)
  obtain r1 w1 where mk: "MakeBackingFsDev (BasePath cfg) blockDeviceName w = (r1, w1)"
    by (cases "MakeBackingFsDev (BasePath cfg) blockDeviceName w")
  with assms nonempty have r1: "r1 = None"
    by (cases r1) (auto simp: NewControl_def Let_def)
  obtain m e w2 where gen: "GeneratePathToProjectIdMap (BasePath cfg) w1 = ((m, e), w2)"
    by (metis prod.exhaust)
  with assms nonempty mk r1 have e: "e = None" and w2: "w2 = w'"
    by (cases e; auto simp: NewControl_def Let_def)+
  obtain r w0 where rd: "ReadDir (BasePath cfg) w1 = (r, w0)"
    by (cases "ReadDir (BasePath cfg) w1")
  with gen e obtain files where files: "r = Inr files"
    by (cases r) (auto simp: GeneratePathToProjectIdMap_def)
  have scan: "scan_files (BasePath cfg) files [] w0 = ((m, None), w')"
    using gen e w2 rd files by (simp add: GeneratePathToProjectIdMap_def)
  from scan_files_ok [OF scan] obtain al where al: "m = Some al" by blast
  have "readdir w (BasePath cfg) = Some files"
    using ReadDir_cases [OF rd] files MakeBackingFsDev_cases [OF mk]
    by (simp split: option.splits)
  moreover have "dir_projid w0 = dir_projid w"
    using ReadDir_cases [OF rd] MakeBackingFsDev_cases [OF mk] by simp
  moreover have "backingFsBlockDev c = filepath_Join (BasePath cfg) blockDeviceName \<and>
      projectIdCache c = Some al \<and>
      lastProjectId c = raise_lastProjectId (map snd al)
               (case StartingProjectId cfg of None \<Rightarrow> 0 | Some s \<Rightarrow> s)"
    using assms nonempty mk r1 gen e al
    by (auto simp: NewControl_def Let_def zero_Control_def map_values_def split: option.splits)
  ultimately show ?thesis using scan al by blast
qed

text \<open>
  C5. When \<^verbatim>\<open>NewControl\<close> succeeds over a base path, the cache is an
  allocated map with one entry per key, and it maps a path to an id exactly
  when the path is the absolute path of an immediate child of the base path
  that is a directory and the id is that directory's on-disk project id and is
  not 0. A directory child whose on-disk id is 0 has no entry, and neither has
  a child that is not a directory (its path being that of no directory child).
\<close>

theorem NewControl_cache:
  assumes "NewControl cfg w = ((c, None), w')"
  shows "\<exists>files al.
           readdir w (BasePath cfg) = Some files \<and>
           projectIdCache c = Some al \<and> distinct (map fst al) \<and>
           (\<forall>p v. (map_of al p = Some v) =
                  (v \<noteq> 0 \<and> dir_projid w p = Some v \<and>
                   (\<exists>name. (name, True) \<in> set files \<and> p = filepath_Join (BasePath cfg) name))) \<and>
           (\<forall>name. (name, True) \<in> set files \<and>
                   dir_projid w (filepath_Join (BasePath cfg) name) = Some 0 \<longrightarrow>
                   map_of al (filepath_Join (BasePath cfg) name) = None) \<and>
           (\<forall>name. (name, False) \<in> set files \<and>
                   (\<forall>n. (n, True) \<in> set files \<longrightarrow>
                        filepath_Join (BasePath cfg) n \<noteq> filepath_Join (BasePath cfg) name) \<longrightarrow>
                   map_of al (filepath_Join (BasePath cfg) name) = None)"
proof -
  from NewControl_success [OF assms] obtain files al w1 where
    rd: "readdir w (BasePath cfg) = Some files" and d: "dir_projid w1 = dir_projid w" and
    scan: "scan_files (BasePath cfg) files [] w1 = ((Some al, None), w')" and
    cache: "projectIdCache c = Some al"
    by blast
  from scan_files_ok [OF scan] have dist: "distinct (map fst al)"
    and look: "\<forall>p. map_of al p =
          (if \<exists>name v. (name, True) \<in> set files \<and> p = filepath_Join (BasePath cfg) name \<and>
                        dir_projid w1 p = Some v \<and> v \<noteq> 0
           then dir_projid w1 p else map_of [] p)"
    by auto
  have iff: "\<forall>p v. (map_of al p = Some v) =
                  (v \<noteq> 0 \<and> dir_projid w p = Some v \<and>
                   (\<exists>name. (name, True) \<in> set files \<and> p = filepath_Join (BasePath cfg) name))"
    using look d by (auto split: if_splits)
  moreover from this have
    "\<forall>name. (name, True) \<in> set files \<and>
        dir_projid w (filepath_Join (BasePath cfg) name) = Some 0 \<longrightarrow>
        map_of al (filepath_Join (BasePath cfg) name) = None"
    by (metis not_Some_eq option.inject)
  moreover from iff have
    "\<forall>name. (name, False) \<in> set files \<and>
        (\<forall>n. (n, True) \<in> set files \<longrightarrow>
             filepath_Join (BasePath cfg) n \<noteq> filepath_Join (BasePath cfg) name) \<longrightarrow>
        map_of al (filepath_Join (BasePath cfg) name) = None"
    by (metis not_Some_eq)
  ultimately show ?thesis using rd cache dist by blast
qed

theorem NewControl_cache_witness:
  "NewControl sample_cfg sample_world = ((sample_Control, None), scanned_world) \<and>
   (\<exists>files al.
      readdir sample_world (BasePath sample_cfg) = Some files \<and>
      projectIdCache sample_Control = Some al \<and> distinct (map fst al) \<and>
      (\<forall>p v. (map_of al p = Some v) =
             (v \<noteq> 0 \<and> dir_projid sample_world p = Some v \<and>
              (\<exists>name. (name, True) \<in> set files \<and> p = filepath_Join (BasePath sample_cfg) name))))"
proof -
  have h: "NewControl sample_cfg sample_world = ((sample_Control, None), scanned_world)"
    by (simp add: NewControl_def GeneratePathToProjectIdMap_def zero_Control_def map_values_def
        sample_defs wrapper_defs path_defs Let_def)
  show ?thesis
    using h NewControl_cache [OF h] by blast
qed

lemma observed_finite:
  "finite {v. \<exists>name. (name, True) \<in> set files \<and> f name = Some v}"
proof -
  have "{v. \<exists>name. (name, True) \<in> set files \<and> f name = Some v}
          \<subseteq> (\<lambda>x. the (f (fst x))) ` set files"
    by force
  then show ?thesis by (rule finite_subset) simp
qed

lemma NewControl_lastProjectId:
  assumes "NewControl cfg w = ((c, None), w')"
  shows "\<exists>files. readdir w (BasePath cfg) = Some files \<and>
           lastProjectId c =
             Max (insert (case StartingProjectId cfg of None \<Rightarrow> 0 | Some s \<Rightarrow> s)
                    {v. \<exists>name. (name, True) \<in> set files \<and>
                          dir_projid w (filepath_Join (BasePath cfg) name) = Some v})"
proof -
  let ?s = "case StartingProjectId cfg of None \<Rightarrow> 0 | Some s \<Rightarrow> s"
  from NewControl_success [OF assms] obtain files al w1 where
    rd: "readdir w (BasePath cfg) = Some files" and d: "dir_projid w1 = dir_projid w" and
    scan: "scan_files (BasePath cfg) files [] w1 = ((Some al, None), w')" and
    last: "lastProjectId c = raise_lastProjectId (map snd al) ?s"
    by blast
  let ?A = "{v. \<exists>name. (name, True) \<in> set files \<and>
                  dir_projid w (filepath_Join (BasePath cfg) name) = Some v}"
  let ?B = "set (map snd al)"
  from scan_files_ok [OF scan] have dist: "distinct (map fst al)"
    and look: "\<forall>p. map_of al p =
          (if \<exists>name v. (name, True) \<in> set files \<and> p = filepath_Join (BasePath cfg) name \<and>
                        dir_projid w1 p = Some v \<and> v \<noteq> 0
           then dir_projid w1 p else map_of [] p)"
    by auto
  have B: "?B = {v. \<exists>p. map_of al p = Some v}"
    using dist by (force simp: map_of_eq_Some_iff)
  have BA: "?B \<subseteq> ?A"
    unfolding B using look d by (auto split: if_splits)
  have AB: "?A \<subseteq> insert 0 ?B"
    unfolding B using look d by (auto split: if_splits)
  have finA: "finite ?A" by (rule observed_finite)
  have "Max (insert ?s ?A) = Max (insert ?s ?B)"
  proof (rule Max_eqI)
    show "finite (insert ?s ?A)" using finA by simp
    show "Max (insert ?s ?B) \<in> insert ?s ?A"
      using Max_in [of "insert ?s ?B"] BA by auto
    fix y assume "y \<in> insert ?s ?A"
    then have "y \<in> insert ?s ?B \<or> y = 0" using AB by auto
    then show "y \<le> Max (insert ?s ?B)"
    proof
      assume "y \<in> insert ?s ?B"
      then show ?thesis by (intro Max_ge) simp_all
    next
      assume "y = 0"
      then show ?thesis by simp
    qed
  qed
  then show ?thesis
    using rd last by (simp add: raise_lastProjectId_Max)
qed

subsection \<open>The counter over a lifetime\<close>

lemma SetQuota_fresh:
  assumes "map_get (projectIdCache c) targetPath = None"
    and "SetQuota targetPath quota c w = (r, c', w')"
  shows "\<exists>rest. calls w' = calls w @ SetProjectId_call targetPath (lastProjectId c + 1) # rest \<and>
           (c' = c \<or>
            map_get (projectIdCache c') targetPath = Some (lastProjectId c + 1) \<and>
            lastProjectId c' = lastProjectId c + 1)"
proof -
  obtain b w1 where b: "SetProjectId targetPath (lastProjectId c + 1) w = (b, w1)"
    by (cases "SetProjectId targetPath (lastProjectId c + 1) w")
  note w1 = SetProjectId_cases [OF b]
  show ?thesis
  proof (cases b)
    case (Some err)
    with assms b w1 show ?thesis by (simp add: SetQuota_def)
  next
    case None
    show ?thesis
    proof (cases "projectIdCache c")
      case nil: None
      with None assms b w1 show ?thesis by (simp add: SetQuota_def)
    next
      case (Some al)
      let ?c1 = "c\<lparr>projectIdCache := Some (AList.update targetPath (lastProjectId c + 1) al),
                   lastProjectId := lastProjectId c + 1\<rparr>"
      have "apply_quota targetPath quota (lastProjectId c + 1) ?c1 w1 = (r, c', w')"
        using None Some assms b by (simp add: SetQuota_def Let_def)
      from apply_quota_cases [OF this] w1 show ?thesis
        by (auto simp: map_get_def update_conv')
    qed
  qed
qed

lemma SetQuota_lastProjectId:
  assumes "SetQuota targetPath quota c w = (r, c', w')"
  shows "lastProjectId c' = lastProjectId c \<or> lastProjectId c' = lastProjectId c + 1"
proof (cases "map_get (projectIdCache c) targetPath")
  case None
  from SetQuota_fresh [OF None assms] show ?thesis by auto
next
  case (Some projectId)
  then have "apply_quota targetPath quota projectId c w = (r, c', w')"
    using assms by (simp add: SetQuota_def)
  from apply_quota_cases [OF this] show ?thesis by simp
qed

lemma unat_u32_Suc: "unat (x :: u32) + 1 < 2 ^ 32 \<Longrightarrow> unat (x + 1) = unat x + 1"
  by (simp add: unat_word_ariths)

lemma lifetime_lastProjectId:
  "lifetime rs c w = Some (c', w') \<Longrightarrow>
   unat (lastProjectId c) + SetQuota_calls rs < 2 ^ 32 \<Longrightarrow>
     unat (lastProjectId c) \<le> unat (lastProjectId c') \<and>
     unat (lastProjectId c') \<le> unat (lastProjectId c) + SetQuota_calls rs"
proof (induction rs c w rule: lifetime.induct)
  case (1 c w)
  then show ?case by simp
next
  case (2 targetPath quota rs c w)
  obtain r c1 w1 where s: "SetQuota targetPath quota c w = (r, c1, w1)"
    by (metis prod_cases3)
  from "2.prems" s obtain err where r: "r = Return err" and run: "lifetime rs c1 w1 = Some (c', w')"
    by (cases r) auto
  from SetQuota_lastProjectId [OF s] "2.prems"(2)
  have step: "unat (lastProjectId c) \<le> unat (lastProjectId c1) \<and>
              unat (lastProjectId c1) \<le> unat (lastProjectId c) + 1"
    by (auto simp: unat_u32_Suc)
  then have "unat (lastProjectId c1) + SetQuota_calls rs < 2 ^ 32"
    using "2.prems"(2) by simp
  from "2.IH" [OF s [symmetric] r refl run this] step show ?case by simp
next
  case (3 targetPath rs c w)
  obtain res c1 w1 where g: "GetQuota targetPath c w = (res, c1, w1)"
    by (metis prod_cases3)
  then have "c1 = c"
    by (auto simp: GetQuota_def split: option.splits prod.splits sum.splits)
  with 3 g show ?case by simp
next
  case (4 rs c w)
  then show ?case by (simp add: GetBackingFsBlockDev_def)
qed

text \<open>
  After a successful \<^verbatim>\<open>NewControl\<close>, \<open>lastProjectId\<close> is the maximum of the
  configured floor and the scanned ids, and a fresh path is bound to an id above
  it in every lifetime short enough for the counter not to reach
  \<open>2 ^ 32\<close> (a sufficient condition).
\<close>

lemma fresh_id_above_lastProjectId:
  assumes "NewControl cfg w = ((c, None), w0)"
  shows "(\<exists>files. readdir w (BasePath cfg) = Some files \<and>
            lastProjectId c =
              Max (insert (case StartingProjectId cfg of None \<Rightarrow> 0 | Some s \<Rightarrow> s)
                     {v. \<exists>name. (name, True) \<in> set files \<and>
                           dir_projid w (filepath_Join (BasePath cfg) name) = Some v})) \<and>
         (\<forall>rs c1 w1 targetPath quota r c2 w2.
            lifetime rs c w0 = Some (c1, w1) \<and>
            unat (lastProjectId c) + SetQuota_calls rs + 1 < 2 ^ 32 \<and>
            map_get (projectIdCache c1) targetPath = None \<and>
            SetQuota targetPath quota c1 w1 = (r, c2, w2) \<longrightarrow>
            (\<exists>projectId rest.
               calls w2 = calls w1 @ SetProjectId_call targetPath projectId # rest \<and>
               lastProjectId c < projectId \<and>
               (c2 = c1 \<or>
                map_get (projectIdCache c2) targetPath = Some projectId \<and>
                lastProjectId c2 = projectId)))"
proof (intro conjI allI impI)
  show "\<exists>files. readdir w (BasePath cfg) = Some files \<and>
            lastProjectId c =
              Max (insert (case StartingProjectId cfg of None \<Rightarrow> 0 | Some s \<Rightarrow> s)
                     {v. \<exists>name. (name, True) \<in> set files \<and>
                           dir_projid w (filepath_Join (BasePath cfg) name) = Some v})"
    by (rule NewControl_lastProjectId [OF assms])
next
  fix rs c1 w1 targetPath quota r c2 w2
  assume a: "lifetime rs c w0 = Some (c1, w1) \<and>
            unat (lastProjectId c) + SetQuota_calls rs + 1 < 2 ^ 32 \<and>
            map_get (projectIdCache c1) targetPath = None \<and>
            SetQuota targetPath quota c1 w1 = (r, c2, w2)"
  then have run: "lifetime rs c w0 = Some (c1, w1)"
    and bound: "unat (lastProjectId c) + SetQuota_calls rs + 1 < 2 ^ 32"
    and fresh: "map_get (projectIdCache c1) targetPath = None"
    and call: "SetQuota targetPath quota c1 w1 = (r, c2, w2)"
    by simp_all
  from lifetime_lastProjectId [OF run] bound
  have le: "unat (lastProjectId c) \<le> unat (lastProjectId c1)"
    and room: "unat (lastProjectId c1) + 1 < 2 ^ 32"
    by simp_all
  have "unat (lastProjectId c) < unat (lastProjectId c1 + 1)"
    using le unat_u32_Suc [OF room] by simp
  then have "lastProjectId c < lastProjectId c1 + 1"
    by (simp add: word_less_nat_alt)
  with SetQuota_fresh [OF fresh call]
  show "\<exists>projectId rest.
               calls w2 = calls w1 @ SetProjectId_call targetPath projectId # rest \<and>
               lastProjectId c < projectId \<and>
               (c2 = c1 \<or>
                map_get (projectIdCache c2) targetPath = Some projectId \<and>
                lastProjectId c2 = projectId)"
    by blast
qed

text \<open>
  C6. When \<^verbatim>\<open>NewControl\<close> succeeds, \<open>lastProjectId\<close> is to be the maximum
  of the configured \<^verbatim>\<open>StartingProjectId\<close> (0 when there is none) and the
  largest scanned id, so that every later fresh allocation is strictly greater
  than both. The maximum is what \<^verbatim>\<open>NewControl\<close> computes
  (\<open>NewControl_lastProjectId\<close>), but \<^verbatim>\<open>SetQuota\<close> adds 1 to it in
  \<^verbatim>\<open>uint32\<close> with no check: over \<^verbatim>\<open>/mnt/xfs\<close>, where the largest
  scanned id is 1, with \<^verbatim>\<open>StartingProjectId\<close> 4294967295,
  \<open>lastProjectId\<close> is 4294967295 and the first fresh path, \<^verbatim>\<open>b\<close>, is
  bound to id 0, which is greater than neither.
\<close>

theorem NewControl_floor_not_exceeded:
  "NewControl top_cfg sample_world = ((top_Control, None), scanned_world) \<and>
   StartingProjectId top_cfg = Some 4294967295 \<and>
   map_get (projectIdCache top_Control) ''/mnt/xfs/a'' = Some 1 \<and>
   lastProjectId top_Control = 4294967295 \<and>
   map_get (projectIdCache top_Control) ''/mnt/xfs/b'' = None \<and>
   fst (SetQuota ''/mnt/xfs/b'' sample_Quota top_Control scanned_world) = Return None \<and>
   map_get (projectIdCache (fst (snd (SetQuota ''/mnt/xfs/b'' sample_Quota top_Control
                                         scanned_world)))) ''/mnt/xfs/b'' = Some 0 \<and>
   dir_projid (snd (snd (SetQuota ''/mnt/xfs/b'' sample_Quota top_Control scanned_world)))
     ''/mnt/xfs/b'' = Some 0 \<and>
   \<not> ((4294967295 :: u32) < 0) \<and> \<not> ((1 :: u32) < 0)"
  by (simp add: NewControl_def GeneratePathToProjectIdMap_def zero_Control_def map_values_def
      SetQuota_def apply_quota_def map_get_def top_cfg_def top_Control_def sample_defs
      wrapper_defs path_defs Let_def)

subsection \<open>The ids that \<^verbatim>\<open>SetQuota\<close> hands out\<close>

lemma SetQuota_success_fresh:
  assumes "map_get (projectIdCache c) targetPath = None"
    and "SetQuota targetPath quota c w = (Return None, c', w')"
  shows "lastProjectId c' = lastProjectId c + 1 \<and>
         backingFsBlockDev c' = backingFsBlockDev c \<and>
         dir_projid w' = (dir_projid w)(targetPath \<mapsto> lastProjectId c + 1) \<and>
         (\<forall>p. map_get (projectIdCache c') p =
                (if p = targetPath then Some (lastProjectId c + 1)
                 else map_get (projectIdCache c) p))"
proof -
  obtain b w1 where b: "SetProjectId targetPath (lastProjectId c + 1) w = (b, w1)"
    by (cases "SetProjectId targetPath (lastProjectId c + 1) w")
  from assms b obtain al where al: "projectIdCache c = Some al" and none: "b = None"
    by (auto simp: SetQuota_def Let_def split: option.splits)
  let ?c1 = "c\<lparr>projectIdCache := Some (AList.update targetPath (lastProjectId c + 1) al),
               lastProjectId := lastProjectId c + 1\<rparr>"
  have "apply_quota targetPath quota (lastProjectId c + 1) ?c1 w1 = (Return None, c', w')"
    using assms b al none by (simp add: SetQuota_def Let_def)
  from apply_quota_cases [OF this] SetProjectId_cases [OF b] none al show ?thesis
    by (auto simp: map_get_def update_conv')
qed

text \<open>
  The ids of a run of successful calls on distinct fresh paths, in the
  arithmetic of \<^verbatim>\<open>uint32\<close>.
\<close>

lemma SetQuota_all_ids:
  "SetQuota_all pqs c w = Some (c', w') \<Longrightarrow>
   distinct (map fst pqs) \<Longrightarrow>
   \<forall>p \<in> set (map fst pqs). map_get (projectIdCache c) p = None \<Longrightarrow>
     lastProjectId c' = lastProjectId c + of_nat (length pqs) \<and>
     (\<forall>i < length pqs.
        map_get (projectIdCache c') (fst (pqs ! i)) = Some (lastProjectId c + of_nat (Suc i)) \<and>
        dir_projid w' (fst (pqs ! i)) = Some (lastProjectId c + of_nat (Suc i))) \<and>
     (\<forall>p. p \<notin> set (map fst pqs) \<longrightarrow>
        map_get (projectIdCache c') p = map_get (projectIdCache c) p \<and>
        dir_projid w' p = dir_projid w p)"
proof (induction pqs arbitrary: c w)
  case Nil
  then show ?case by simp
next
  case (Cons pq pqs)
  obtain targetPath quota where pq: "pq = (targetPath, quota)" by (cases pq)
  obtain r c1 w1 where s: "SetQuota targetPath quota c w = (r, c1, w1)"
    by (metis prod_cases3)
  from Cons.prems(1) pq s have r: "r = Return None" and run: "SetQuota_all pqs c1 w1 = Some (c', w')"
    by (auto split: outcome.splits option.splits)
  from Cons.prems(3) pq have fresh: "map_get (projectIdCache c) targetPath = None" by simp
  note one = SetQuota_success_fresh [OF fresh s [unfolded r]]
  from Cons.prems(2) pq have notin: "targetPath \<notin> set (map fst pqs)" and dist: "distinct (map fst pqs)"
    by simp_all
  have fresh1: "\<forall>p \<in> set (map fst pqs). map_get (projectIdCache c1) p = None"
    using one Cons.prems(3) notin by auto
  note ih = Cons.IH [OF run dist fresh1]
  have last: "lastProjectId c' = lastProjectId c + of_nat (length (pq # pqs))"
    using ih one by simp
  have ids: "\<forall>i < length (pq # pqs).
        map_get (projectIdCache c') (fst ((pq # pqs) ! i)) = Some (lastProjectId c + of_nat (Suc i)) \<and>
        dir_projid w' (fst ((pq # pqs) ! i)) = Some (lastProjectId c + of_nat (Suc i))"
  proof (intro allI impI)
    fix i assume i: "i < length (pq # pqs)"
    show "map_get (projectIdCache c') (fst ((pq # pqs) ! i)) = Some (lastProjectId c + of_nat (Suc i)) \<and>
        dir_projid w' (fst ((pq # pqs) ! i)) = Some (lastProjectId c + of_nat (Suc i))"
    proof (cases i)
      case 0
      with ih notin one pq show ?thesis by simp
    next
      case (Suc j)
      with i have "j < length pqs" by simp
      with ih have "map_get (projectIdCache c') (fst (pqs ! j)) = Some (lastProjectId c1 + of_nat (Suc j)) \<and>
        dir_projid w' (fst (pqs ! j)) = Some (lastProjectId c1 + of_nat (Suc j))"
        by blast
      with Suc one show ?thesis by (simp add: add.assoc add.commute)
    qed
  qed
  have rest: "\<forall>p. p \<notin> set (map fst (pq # pqs)) \<longrightarrow>
        map_get (projectIdCache c') p = map_get (projectIdCache c) p \<and>
        dir_projid w' p = dir_projid w p"
    using ih one pq by auto
  from last ids rest show ?case by blast
qed

text \<open>
  While the counter does not wrap, these ids are pairwise different and above
  the counter's value at the start.
\<close>

lemma fresh_ids_distinct:
  fixes x :: u32
  assumes "unat x + n < 2 ^ 32" and "i < n" and "j < n"
  shows "x < x + of_nat (Suc i)" and "(x + of_nat (Suc i) = x + of_nat (Suc j)) = (i = j)"
proof -
  have u: "\<And>k. k < n \<Longrightarrow> unat (x + of_nat (Suc k)) = unat x + Suc k"
  proof -
    fix k assume k: "k < n"
    then have "Suc k < 2 ^ 32" using assms(1) by simp
    then have "unat (of_nat (Suc k) :: u32) = Suc k"
      by (simp add: unat_of_nat del: of_nat_Suc)
    moreover have "unat x + Suc k < 2 ^ 32" using k assms(1) by simp
    ultimately show "unat (x + of_nat (Suc k)) = unat x + Suc k"
      by (simp add: unat_add_lem [THEN iffD1] del: of_nat_Suc)
  qed
  show "x < x + of_nat (Suc i)"
    using u [OF assms(2)] by (simp add: word_less_nat_alt del: of_nat_Suc)
  show "(x + of_nat (Suc i) = x + of_nat (Suc j)) = (i = j)"
  proof
    assume "x + of_nat (Suc i) = x + of_nat (Suc j)"
    then have "unat (x + of_nat (Suc i)) = unat (x + of_nat (Suc j))" by simp
    then show "i = j" using u [OF assms(2)] u [OF assms(3)] by simp
  qed simp
qed

lemma NewControl_cache_below_lastProjectId:
  assumes "NewControl cfg w = ((c, None), w')"
  shows "\<forall>p v. map_get (projectIdCache c) p = Some v \<longrightarrow> v \<le> lastProjectId c"
proof -
  from NewControl_success [OF assms] obtain al where
    cache: "projectIdCache c = Some al" and
    last: "lastProjectId c = raise_lastProjectId (map snd al)
               (case StartingProjectId cfg of None \<Rightarrow> 0 | Some s \<Rightarrow> s)"
    by blast
  show ?thesis
  proof (intro allI impI)
    fix p v assume "map_get (projectIdCache c) p = Some v"
    then have "v \<in> set (map snd al)"
      using cache by (force simp: map_get_def dest: map_of_SomeD)
    then show "v \<le> lastProjectId c"
      unfolding last raise_lastProjectId_Max by (intro Max_ge) simp_all
  qed
qed

lemma SetQuota_all_no_reuse:
  assumes run: "SetQuota_all pqs c w = Some (c', w')"
    and dist: "distinct (map fst pqs)"
    and fresh: "\<forall>p \<in> set (map fst pqs). map_get (projectIdCache c) p = None"
    and below: "\<forall>p v. map_get (projectIdCache c) p = Some v \<longrightarrow> v \<le> lastProjectId c"
    and room: "unat (lastProjectId c) + length pqs < 2 ^ 32"
    and i: "i < length pqs"
    and other: "p \<noteq> fst (pqs ! i)"
  shows "map_get (projectIdCache c') p \<noteq> map_get (projectIdCache c') (fst (pqs ! i))"
proof -
  note ids = SetQuota_all_ids [OF run dist fresh]
  from ids i have mine:
    "map_get (projectIdCache c') (fst (pqs ! i)) = Some (lastProjectId c + of_nat (Suc i))"
    by blast
  show ?thesis
  proof (cases "p \<in> set (map fst pqs)")
    case True
    then obtain j where j: "j < length pqs" and p: "p = fst (pqs ! j)"
      by (auto simp: in_set_conv_nth)
    with other have "i \<noteq> j" by auto
    moreover from ids j p have
      "map_get (projectIdCache c') p = Some (lastProjectId c + of_nat (Suc j))"
      by blast
    ultimately show ?thesis
      using mine fresh_ids_distinct(2) [OF room j i] by (simp del: of_nat_Suc)
  next
    case False
    with ids have same: "map_get (projectIdCache c') p = map_get (projectIdCache c) p"
      by blast
    show ?thesis
    proof (cases "map_get (projectIdCache c) p")
      case None
      with same mine show ?thesis by simp
    next
      case (Some v)
      with below have "v \<le> lastProjectId c" by blast
      moreover have "lastProjectId c < lastProjectId c + of_nat (Suc i)"
        by (rule fresh_ids_distinct(1) [OF room i i])
      ultimately have "v \<noteq> lastProjectId c + of_nat (Suc i)" by auto
      with same Some mine show ?thesis by (simp del: of_nat_Suc)
    qed
  qed
qed

text \<open>
  C1. Successive \<^verbatim>\<open>SetQuota\<close> calls on new paths are to bind
  \<open>lastProjectId + 1\<close>, \<open>lastProjectId + 2\<close>, ... in call order, and no two
  paths are to get the same id. The lemmas above show both while the counter has
  room. \<^verbatim>\<open>lastProjectId + 1\<close> is computed in \<^verbatim>\<open>uint32\<close> with no check,
  so at 4294967295 it wraps: the controller made over \<^verbatim>\<open>/mnt/xfs\<close>, where
  directory \<^verbatim>\<open>a\<close> carries id 1, with \<^verbatim>\<open>StartingProjectId\<close> 4294967295
  binds the new path \<^verbatim>\<open>b\<close> to id 0 and the new path \<^verbatim>\<open>c\<close> to id 1, the
  id of \<^verbatim>\<open>a\<close>.
\<close>

theorem SetQuota_reuses_id_after_wrap:
  "NewControl top_cfg sample_world = ((top_Control, None), scanned_world) \<and>
   lastProjectId top_Control = 4294967295 \<and>
   map_get (projectIdCache top_Control) ''/mnt/xfs/a'' = Some 1 \<and>
   map_get (projectIdCache top_Control) ''/mnt/xfs/b'' = None \<and>
   map_get (projectIdCache top_Control) ''/mnt/xfs/c'' = None \<and>
   (\<exists>c2 w2.
      SetQuota_all [(''/mnt/xfs/b'', sample_Quota), (''/mnt/xfs/c'', sample_Quota)]
        top_Control scanned_world = Some (c2, w2) \<and>
      projectIdCache c2 = Some [(''/mnt/xfs/a'', 1), (''/mnt/xfs/b'', 0), (''/mnt/xfs/c'', 1)] \<and>
      lastProjectId c2 = 1 \<and>
      dir_projid w2 ''/mnt/xfs/a'' = Some 1 \<and>
      dir_projid w2 ''/mnt/xfs/b'' = Some 0 \<and>
      dir_projid w2 ''/mnt/xfs/c'' = Some 1)"
  by (simp add: NewControl_def GeneratePathToProjectIdMap_def zero_Control_def map_values_def
      SetQuota_def apply_quota_def map_get_def top_cfg_def top_Control_def sample_defs
      wrapper_defs path_defs Let_def)

subsection \<open>The driver's lock\<close>

text \<open>No step writes the driver that the handler holds: its mutex is never locked.\<close>

lemma step_handler_driver: "step i s = Some s' \<Longrightarrow> handler_driver s' = handler_driver s"
  by (auto simp: step_def split: if_splits prod.splits phase.splits)

lemma schedule_handler_driver:
  "schedule is s = Some s' \<Longrightarrow> handler_driver s' = handler_driver s"
  by (induction "is" arbitrary: s) (auto split: option.splits dest: step_handler_driver)

text \<open>
  C10. Every driver operation is to take one process-wide lock around its
  manager invocation, so that no two invocations overlap. The methods lock the
  mutex of their own receiver copy: with a \<^verbatim>\<open>Create\<close> and a
  \<^verbatim>\<open>Remove\<close> in flight, the interleaving call, lock, call, lock is
  possible and leaves both goroutines past \<^verbatim>\<open>Lock\<close>, inside their manager
  invocation, at the same time.
\<close>

theorem Driver_lock_held_twice:
  "schedule [0, 0, 1, 1]
     \<lparr>handler_driver = sample_Driver, goroutines = [(Create, Pending), (Remove, Pending)]\<rparr> =
   Some \<lparr>handler_driver = sample_Driver,
         goroutines = [(Create, Holding (sample_Driver\<lparr>Mutex_locked := True\<rparr>)),
                       (Remove, Holding (sample_Driver\<lparr>Mutex_locked := True\<rparr>))]\<rparr>"
  by (simp add: step_def sample_Driver_def)

end
